theory Spec2Isabelle
  imports Main "HOL-Library.Sublist"
begin

section \<open>Twitter gateway agent: the pipeline of \<^verbatim>\<open>src/index.py\<close>\<close>

text \<open>
  The file holds four scripts (\<^verbatim>\<open>fetch_tweets.py\<close>, \<^verbatim>\<open>analyze_tweets.py\<close>,
  \<^verbatim>\<open>send_notification.py\<close>, \<^verbatim>\<open>run_workflow.py\<close>). Python values are embedded as follows:
  \<^item> \<^verbatim>\<open>int\<close> is \<^typ>\<open>int\<close> (unbounded);
  \<^item> \<^verbatim>\<open>str\<close> is \<^typ>\<open>string\<close>, one \<^typ>\<open>char\<close> per character, so that \<open>length\<close> and
    \<open>take\<close> count what \<^verbatim>\<open>len\<close> and slicing count; a \<^typ>\<open>char\<close> has eight bits, so the
    strings of the model are those over the code points 0..255, and the character classes
    below are Python's classes on that range;
  \<^item> a tweet (a JSON object read with fixed keys) is a record of the keys the scripts read;
  \<^item> an exception is a value \<open>Inl e\<close> of a sum type, a normal result is \<open>Inr v\<close>;
  \<^item> files, standard output, the HTTP requests sent and the subprocesses started are
    fields of an explicit \<open>world\<close>; what the network answers is an \<open>env\<close>.
\<close>

subsection \<open>Python built-ins used by the scripts\<close>

datatype py_error =
  IndexError | ValueError | KeyError | FileNotFoundError | JSONDecodeError
  | RequestException | APIError

definition digit_char :: "nat \<Rightarrow> char" where
  "digit_char d =
     (if d = 0 then CHR ''0'' else if d = 1 then CHR ''1'' else if d = 2 then CHR ''2''
      else if d = 3 then CHR ''3'' else if d = 4 then CHR ''4'' else if d = 5 then CHR ''5''
      else if d = 6 then CHR ''6'' else if d = 7 then CHR ''7'' else if d = 8 then CHR ''8''
      else CHR ''9'')"

text \<open>\<^verbatim>\<open>str(n)\<close> for a natural number and for an integer, as the f-strings format them.\<close>

fun str_nat :: "nat \<Rightarrow> string" where
  "str_nat n = (if n < 10 then [digit_char n] else str_nat (n div 10) @ [digit_char (n mod 10)])"

declare str_nat.simps [simp del]

definition str_int :: "int \<Rightarrow> string" where
  "str_int i = (if i < 0 then CHR ''-'' # str_nat (nat (- i)) else str_nat (nat i))"

text \<open>
  \<^verbatim>\<open>str.isspace\<close> on one character: TAB, LF, VT, FF, CR, the separators 0x1C..0x1F, space,
  NEL (0x85) and NBSP (0xA0). This is the class \<^verbatim>\<open>str.strip()\<close> removes.
\<close>

definition py_isspace :: "char \<Rightarrow> bool" where
  "py_isspace c =
     (let n = (of_char c :: nat)
      in (9 \<le> n \<and> n \<le> 13) \<or> (28 \<le> n \<and> n \<le> 32) \<or> n = 133 \<or> n = 160)"

definition py_strip :: "string \<Rightarrow> string" where
  "py_strip s = rev (dropWhile py_isspace (rev (dropWhile py_isspace s)))"

text \<open>
  \<^verbatim>\<open>s.split(sep)\<close> for a one-character separator: the pieces between the occurrences of
  \<open>sep\<close>, empty pieces included; the result is never empty. \<open>split_pieces\<close> returns the
  piece in progress and the pieces after it.
\<close>

fun split_pieces :: "char \<Rightarrow> string \<Rightarrow> string \<times> string list" where
  "split_pieces sep [] = ([], [])"
| "split_pieces sep (c # cs) =
     (let (p, ps) = split_pieces sep cs
      in if c = sep then ([], p # ps) else (c # p, ps))"

definition py_split :: "char \<Rightarrow> string \<Rightarrow> string list" where
  "py_split sep s = (let (p, ps) = split_pieces sep s in p # ps)"

text \<open>\<^verbatim>\<open>xs[i]\<close> for a non-negative literal index: IndexError out of range.\<close>

definition py_index :: "'a list \<Rightarrow> nat \<Rightarrow> py_error + 'a" where
  "py_index xs i = (if i < length xs then Inr (xs ! i) else Inl IndexError)"

text \<open>
  \<^verbatim>\<open>int(s)\<close> in base 10, as CPython parses a \<^verbatim>\<open>str\<close>: characters below 127 are kept, a
  non-ASCII space becomes a blank, any other non-ASCII character (none of the range
  0..255 is a decimal digit) becomes \<^verbatim>\<open>?\<close> and ends the text; then blanks of the C locale
  are skipped on both sides, one sign is accepted, and the rest must be decimal digits
  with single underscores between digits only. A numeral of more than
  \<open>int_max_str_digits\<close> digits is refused (the default limit of CPython 3.11 and later).
\<close>

definition ascii_isspace :: "char \<Rightarrow> bool" where
  "ascii_isspace c = (let n = (of_char c :: nat) in (9 \<le> n \<and> n \<le> 13) \<or> n = 32)"

definition is_digit :: "char \<Rightarrow> bool" where
  "is_digit c = (let n = (of_char c :: nat) in 48 \<le> n \<and> n \<le> 57)"

definition digit_val :: "char \<Rightarrow> int" where
  "digit_val c = int (of_char c) - 48"

fun to_ascii :: "string \<Rightarrow> string" where
  "to_ascii [] = []"
| "to_ascii (c # cs) =
     (if (of_char c :: nat) < 127 then c # to_ascii cs
      else if py_isspace c then CHR '' '' # to_ascii cs
      else ''?'')"

fun digits_ok :: "char \<Rightarrow> string \<Rightarrow> bool" where
  "digits_ok prev [] = (prev \<noteq> CHR ''_'')"
| "digits_ok prev (c # cs) =
     (if c = CHR ''_'' then prev \<noteq> CHR ''_'' \<and> digits_ok c cs
      else is_digit c \<and> digits_ok c cs)"

definition decimal_value :: "string \<Rightarrow> int" where
  "decimal_value ds = foldl (\<lambda>acc c. acc * 10 + digit_val c) 0 (filter (\<lambda>c. c \<noteq> CHR ''_'') ds)"

definition int_max_str_digits :: nat where
  "int_max_str_digits = 4300"

definition py_int :: "string \<Rightarrow> py_error + int" where
  "py_int s =
     (let u = dropWhile ascii_isspace (to_ascii s);
          neg = (case u of [] \<Rightarrow> False | c # _ \<Rightarrow> c = CHR ''-'');
          v = (case u of [] \<Rightarrow> [] | c # r \<Rightarrow> if c = CHR ''+'' \<or> c = CHR ''-'' then r else u);
          w = rev (dropWhile ascii_isspace (rev v))
      in if w \<noteq> [] \<and> digits_ok CHR ''_'' w
            \<and> length (filter is_digit w) \<le> int_max_str_digits
         then Inr (if neg then - decimal_value w else decimal_value w)
         else Inl ValueError)"

text \<open>The characters that a text accepted by \<^verbatim>\<open>int\<close> can contain.\<close>

definition numeral_char :: "char \<Rightarrow> bool" where
  "numeral_char c =
     (is_digit c \<or> c = CHR ''+'' \<or> c = CHR ''-'' \<or> c = CHR ''_'' \<or> py_isspace c)"

subsection \<open>Data and the outside world\<close>

text \<open>A tweet: the keys of the JSON object that the scripts read.\<close>

record tweet =
  id_str :: string
  full_text :: string
  screen_name :: string
  favorite_count :: int
  retweet_count :: int

text \<open>The dictionary returned by \<^verbatim>\<open>analyze_tweet_relevance\<close>.\<close>

record scored =
  tweet :: tweet
  tweet_url :: string
  score :: int
  analysis :: string

text \<open>The JSON payload of the webhook: a content line and a list of embeds.\<close>

record embed =
  title :: string
  description :: string
  color :: int

record payload =
  content :: string
  embeds :: "embed list"

text \<open>
  An HTTP response: \<^verbatim>\<open>status_code\<close>, \<^verbatim>\<open>text\<close>, and what \<^verbatim>\<open>json()\<close> gives: an exception, or
  an object of which only lists of tweets under a key are read.
\<close>

record http_response =
  status_code :: int
  response_text :: string
  response_json :: "py_error + (string \<Rightarrow> tweet list option)"

text \<open>
  What the network answers in one run: the result of the one \<^verbatim>\<open>requests.get\<close>, of the
  \<open>k\<close>-th chat completion for a prompt (the text of \<^verbatim>\<open>message.content\<close>), and of
  \<^verbatim>\<open>requests.post\<close> for a payload. Each may raise.
\<close>

record env =
  api_get :: "py_error + http_response"
  llm_create :: "nat \<Rightarrow> string \<Rightarrow> py_error + string"
  webhook_post :: "payload \<Rightarrow> py_error + http_response"

text \<open>
  What the scripts change: the two files (absent, or their content; the JSON file holds
  the list that \<^verbatim>\<open>json.dump\<close> wrote and \<^verbatim>\<open>json.load\<close> reads back), the lines printed,
  the payloads handed to \<^verbatim>\<open>requests.post\<close>, and the scripts started by
  \<^verbatim>\<open>subprocess.run\<close>.
\<close>

record world =
  tweets_for_analysis_json :: "tweet list option"
  twitter_digest_md :: "string option"
  stdout :: "string list"
  posted :: "payload list"
  spawned :: "string list"

definition py_print :: "string \<Rightarrow> world \<Rightarrow> world" where
  "py_print s w = w\<lparr>stdout := stdout w @ [s]\<rparr>"

subsection \<open>\<^verbatim>\<open>fetch_tweets.py\<close>\<close>

definition MIN_LIKES :: int where
  "MIN_LIKES = 10"

definition fetch_list_tweets :: "env \<Rightarrow> world \<Rightarrow> (py_error + tweet list) \<times> world" where
  "fetch_list_tweets e w =
     (case api_get e of
        Inl err \<Rightarrow> (Inl err, w)
      | Inr response \<Rightarrow>
          if status_code response = 200 then
            (case response_json response of
               Inl err \<Rightarrow> (Inl err, w)
             | Inr data \<Rightarrow>
                 (case data ''tweets'' of
                    None \<Rightarrow> (Inl KeyError, w)
                  | Some tweets \<Rightarrow> (Inr tweets, w)))
          else
            (Inr [],
             py_print (response_text response)
               (py_print (''Error fetching tweets: '' @ str_int (status_code response)) w)))"

definition filter_tweets_by_engagement :: "tweet list \<Rightarrow> int \<Rightarrow> tweet list" where
  "filter_tweets_by_engagement tweets min_likes =
     [t \<leftarrow> tweets. favorite_count t \<ge> min_likes]"

definition save_tweets_for_analysis :: "tweet list \<Rightarrow> world \<Rightarrow> world" where
  "save_tweets_for_analysis tweets w =
     py_print (''Saved '' @ str_nat (length tweets) @ '' tweets for analysis'')
       (w\<lparr>tweets_for_analysis_json := Some tweets\<rparr>)"

text \<open>The \<^verbatim>\<open>__main__\<close> block of the script.\<close>

definition fetch_tweets_main :: "env \<Rightarrow> world \<Rightarrow> (py_error + unit) \<times> world" where
  "fetch_tweets_main e w =
     (case fetch_list_tweets e w of
        (Inl err, w1) \<Rightarrow> (Inl err, w1)
      | (Inr all_tweets, w1) \<Rightarrow>
          let w2 = py_print (''Fetched '' @ str_nat (length all_tweets) @ '' tweets from list'') w1;
              filtered_tweets = filter_tweets_by_engagement all_tweets MIN_LIKES;
              w3 = py_print (''Filtered to '' @ str_nat (length filtered_tweets)
                    @ '' tweets with '' @ str_int MIN_LIKES @ ''+ likes'') w2
          in (Inr (), save_tweets_for_analysis filtered_tweets w3))"

subsection \<open>\<^verbatim>\<open>analyze_tweets.py\<close>\<close>

definition WORK_DESCRIPTION :: string where
  \<open>WORK_DESCRIPTION =
     ''\<newline>Provide a detailed description of your work interests, projects, and topics\<newline>''
     @ ''that would make a tweet relevant to you. The more specific, the better.\<newline>''
     @ ''For example: "I'm working on AI agents for productivity, specifically\<newline>''
     @ ''focusing on automating knowledge work tasks and reducing digital distraction."\<newline>''\<close>

definition load_tweets :: "world \<Rightarrow> py_error + tweet list" where
  "load_tweets w =
     (case tweets_for_analysis_json w of None \<Rightarrow> Inl FileNotFoundError | Some tweets \<Rightarrow> Inr tweets)"

definition prompt_of :: "string \<Rightarrow> string \<Rightarrow> string \<Rightarrow> string" where
  \<open>prompt_of tweet_text username engagement =
     ''\<newline>    Analyze if the following tweet is highly relevant to my work:\<newline>''
     @ ''    \<newline>''
     @ ''    TWEET: "'' @ tweet_text @ ''"\<newline>''
     @ ''    By: @'' @ username @ ''\<newline>''
     @ ''    Engagement: '' @ engagement @ ''\<newline>''
     @ ''    \<newline>''
     @ ''    MY WORK INTERESTS:\<newline>''
     @ ''    '' @ WORK_DESCRIPTION @ ''\<newline>''
     @ ''    \<newline>''
     @ ''    Rate this tweet's relevance to my work on a scale of 1-10, where:\<newline>''
     @ ''    1-3: Not relevant\<newline>''
     @ ''    4-6: Somewhat relevant\<newline>''
     @ ''    7-10: Highly relevant\<newline>''
     @ ''    \<newline>''
     @ ''    First provide the numerical score, then a brief explanation.\<newline>''
     @ ''    ''\<close>

text \<open>
  The body of the \<^verbatim>\<open>try\<close>: the first line, stripped, cut at colons; the second piece,
  stripped, cut at slashes; the first piece of that, read by \<^verbatim>\<open>int\<close>. An index out of
  range and a text that is no numeral raise.
\<close>

definition extract_score :: "string \<Rightarrow> py_error + int" where
  "extract_score reply =
     (case py_index (py_split CHR ''\<newline>'' reply) 0 of
        Inl err \<Rightarrow> Inl err
      | Inr score_line \<Rightarrow>
          (case py_index (py_split CHR '':'' (py_strip score_line)) 1 of
             Inl err \<Rightarrow> Inl err
           | Inr piece \<Rightarrow>
               (case py_index (py_split CHR ''/'' (py_strip piece)) 0 of
                  Inl err \<Rightarrow> Inl err
                | Inr token \<Rightarrow> py_int token)))"

text \<open>The prompt that the function builds for a tweet.\<close>

definition relevance_prompt :: "tweet \<Rightarrow> string" where
  "relevance_prompt tw =
     (let tweet_text = full_text tw;
          username = screen_name tw;
          engagement = ''Likes: '' @ str_int (favorite_count tw)
                       @ '', Retweets: '' @ str_int (retweet_count tw)
      in prompt_of tweet_text username engagement)"

text \<open>
  The function, for the \<open>k\<close>-th tweet of the batch. The request to the model may raise,
  and nothing catches that; the bare \<^verbatim>\<open>except\<close> catches whatever the extraction raises.
\<close>

definition analyze_tweet_relevance :: "env \<Rightarrow> nat \<Rightarrow> tweet \<Rightarrow> py_error + scored" where
  "analyze_tweet_relevance e k tw =
     (let url = ''https://twitter.com/'' @ screen_name tw @ ''/status/'' @ id_str tw
      in case llm_create e k (relevance_prompt tw) of
           Inl err \<Rightarrow> Inl err
         | Inr response \<Rightarrow>
             Inr \<lparr>tweet = tw, tweet_url = url,
                  score = (case extract_score response of Inl err \<Rightarrow> 0 | Inr n \<Rightarrow> n),
                  analysis = response\<rparr>)"

text \<open>
  \<^verbatim>\<open>sorted(xs, key=f, reverse=True)\<close>: CPython reverses the list, sorts it stably in
  ascending order of the key, and reverses the result.
\<close>

definition py_sorted_reverse :: "('a \<Rightarrow> int) \<Rightarrow> 'a list \<Rightarrow> 'a list" where
  "py_sorted_reverse f xs = rev (sort_key f (rev xs))"

definition relevant_tweets :: "scored list \<Rightarrow> scored list" where
  "relevant_tweets analyses = py_sorted_reverse score [a \<leftarrow> analyses. score a \<ge> 7]"

text \<open>What one turn of the \<^verbatim>\<open>for\<close> loop appends to the digest.\<close>

definition digest_section :: "scored \<Rightarrow> string" where
  "digest_section item =
     ''## @'' @ screen_name (tweet item) @ '': '' @ str_int (score item)
       @ ''/10 Relevance\<newline>\<newline>''
     @ full_text (tweet item) @ ''\<newline>\<newline>''
     @ ''[View Tweet]('' @ tweet_url item @ '')\<newline>\<newline>''
     @ ''---\<newline>\<newline>''"

definition generate_digest :: "scored list \<Rightarrow> string" where
  "generate_digest analyses =
     (let relevant = relevant_tweets analyses
      in if relevant = [] then ''No highly relevant tweets found in the latest batch.''
         else foldl (\<lambda>digest item. digest @ digest_section item)
                ''# Relevant Twitter Content Digest\<newline>\<newline>'' relevant)"

text \<open>The list comprehension of the \<^verbatim>\<open>__main__\<close> block: the first exception ends it.\<close>

fun analyze_all :: "env \<Rightarrow> nat \<Rightarrow> tweet list \<Rightarrow> py_error + scored list" where
  "analyze_all e k [] = Inr []"
| "analyze_all e k (tw # tws) =
     (case analyze_tweet_relevance e k tw of
        Inl err \<Rightarrow> Inl err
      | Inr a \<Rightarrow>
          (case analyze_all e (Suc k) tws of
             Inl err \<Rightarrow> Inl err
           | Inr rest \<Rightarrow> Inr (a # rest)))"

definition analyze_tweets_main :: "env \<Rightarrow> world \<Rightarrow> (py_error + unit) \<times> world" where
  "analyze_tweets_main e w =
     (case load_tweets w of
        Inl err \<Rightarrow> (Inl err, w)
      | Inr tweets \<Rightarrow>
          let w1 = py_print (''Analyzing '' @ str_nat (length tweets)
                    @ '' tweets for relevance...'') w
          in (case analyze_all e 0 tweets of
                Inl err \<Rightarrow> (Inl err, w1)
              | Inr analyses \<Rightarrow>
                  let digest = generate_digest analyses;
                      w2 = w1\<lparr>twitter_digest_md := Some digest\<rparr>
                  in (Inr (), py_print ''Digest generated and saved to twitter_digest.md'' w2)))"

subsection \<open>\<^verbatim>\<open>send_notification.py\<close>\<close>

definition discord_payload :: "string \<Rightarrow> payload" where
  "discord_payload digest =
     \<lparr>content = ''New Twitter Digest Available!'',
      embeds = [\<lparr>title = ''Twitter Content Digest'',
                 description = (if length digest > 2000 then take 2000 digest @ ''...''
                                else digest),
                 color = 3447003\<rparr>]\<rparr>"

definition send_to_discord :: "env \<Rightarrow> string \<Rightarrow> world \<Rightarrow> (py_error + unit) \<times> world" where
  "send_to_discord e digest w =
     (let p = discord_payload digest;
          w1 = w\<lparr>posted := posted w @ [p]\<rparr>
      in case webhook_post e p of
           Inl err \<Rightarrow> (Inl err, w1)
         | Inr response \<Rightarrow>
             if status_code response = 204 then
               (Inr (), py_print ''Digest sent to Discord successfully!'' w1)
             else
               (Inr (),
                py_print (response_text response)
                  (py_print (''Error sending to Discord: '' @ str_int (status_code response)) w1)))"

definition read_digest :: "world \<Rightarrow> py_error + string" where
  "read_digest w =
     (case twitter_digest_md w of None \<Rightarrow> Inl FileNotFoundError | Some digest \<Rightarrow> Inr digest)"

definition send_notification_main :: "env \<Rightarrow> world \<Rightarrow> (py_error + unit) \<times> world" where
  "send_notification_main e w =
     (case read_digest w of
        Inl err \<Rightarrow> (Inl err, w)
      | Inr digest \<Rightarrow> send_to_discord e digest w)"

subsection \<open>\<^verbatim>\<open>run_workflow.py\<close>\<close>

text \<open>
  \<^verbatim>\<open>subprocess.run(["python", script])\<close> without \<^verbatim>\<open>check\<close>: the script runs on the same
  files and the same terminal; an exception that ends it is not raised in the caller,
  it only shows in the return code (1 instead of 0), which the workflow never reads.
\<close>

definition subprocess_run ::
  "string \<Rightarrow> (env \<Rightarrow> world \<Rightarrow> (py_error + unit) \<times> world) \<Rightarrow> env \<Rightarrow> world \<Rightarrow> int \<times> world" where
  "subprocess_run name script e w =
     (let (r, w') = script e (w\<lparr>spawned := spawned w @ [name]\<rparr>)
      in ((case r of Inl err \<Rightarrow> 1 | Inr u \<Rightarrow> 0), w'))"

text \<open>The three steps of \<^verbatim>\<open>run_full_workflow\<close>, as its comments number them.\<close>

definition workflow_step_1 :: "env \<Rightarrow> world \<Rightarrow> int \<times> world" where
  "workflow_step_1 e w =
     subprocess_run ''fetch_tweets.py'' fetch_tweets_main e
       (py_print ''\<newline>--- Fetching Tweets ---''
          (py_print ''Starting Twitter Gateway workflow...'' w))"

definition workflow_step_2 :: "env \<Rightarrow> world \<Rightarrow> int \<times> world" where
  "workflow_step_2 e w =
     subprocess_run ''analyze_tweets.py'' analyze_tweets_main e
       (py_print ''\<newline>--- Analyzing Tweets ---'' w)"

definition workflow_step_3 :: "env \<Rightarrow> world \<Rightarrow> world" where
  "workflow_step_3 e w =
     (if twitter_digest_md w \<noteq> None then
        snd (subprocess_run ''send_notification.py'' send_notification_main e
               (py_print ''\<newline>--- Sending Notification ---'' w))
      else
        py_print ''\<newline>No digest was generated - no relevant tweets found.'' w)"

definition run_full_workflow :: "env \<Rightarrow> world \<Rightarrow> world" where
  "run_full_workflow e w =
     (let w3 = snd (workflow_step_1 e w);
          w5 = snd (workflow_step_2 e w3);
          w6 = workflow_step_3 e w5
      in py_print ''\<newline>Workflow complete!'' w6)"

subsection \<open>Concrete inputs\<close>

text \<open>
  Two tweets with 15 and 5 likes, scored items built from them, an empty world, and
  networks whose model always answers with a given text.
\<close>

definition tweet_15 :: tweet where
  "tweet_15 = \<lparr>id_str = ''1001'', full_text = ''Agents that file your expenses'',
               screen_name = ''alice'', favorite_count = 15, retweet_count = 3\<rparr>"

definition tweet_5 :: tweet where
  "tweet_5 = \<lparr>id_str = ''1002'', full_text = ''Lunch was great'',
              screen_name = ''bob'', favorite_count = 5, retweet_count = 0\<rparr>"

definition scored_as :: "tweet \<Rightarrow> int \<Rightarrow> scored" where
  "scored_as tw n =
     \<lparr>tweet = tw,
      tweet_url = ''https://twitter.com/'' @ screen_name tw @ ''/status/'' @ id_str tw,
      score = n, analysis = ''Score: '' @ str_int n @ ''/10''\<rparr>"

definition empty_world :: world where
  "empty_world = \<lparr>tweets_for_analysis_json = None, twitter_digest_md = None,
                   stdout = [], posted = [], spawned = []\<rparr>"

definition api_response :: "int \<Rightarrow> tweet list \<Rightarrow> http_response" where
  "api_response code tweets =
     \<lparr>status_code = code, response_text = ''{}'',
      response_json = Inr (\<lambda>key. if key = ''tweets'' then Some tweets else None)\<rparr>"

definition env_answering :: "http_response \<Rightarrow> string \<Rightarrow> env" where
  "env_answering r reply =
     \<lparr>api_get = Inr r, llm_create = (\<lambda>k prompt. Inr reply),
      webhook_post = (\<lambda>p. Inr (api_response 204 []))\<rparr>"

definition env_offline :: "http_response \<Rightarrow> env" where
  "env_offline r =
     \<lparr>api_get = Inr r, llm_create = (\<lambda>k prompt. Inl APIError),
      webhook_post = (\<lambda>p. Inl RequestException)\<rparr>"

section \<open>Properties\<close>

subsection \<open>Lists\<close>

lemma subseq_all_filter:
  assumes "subseq ys xs" and "\<forall>y \<in> set ys. P y"
  shows "subseq ys (filter P xs)"
proof -
  from assms(2) have "filter P ys = ys"
    by (simp add: filter_id_conv)
  moreover from assms(1) have "subseq (filter P ys) (filter P xs)"
    by (rule subseq_filter)
  ultimately show ?thesis by simp
qed

lemma py_sorted_reverse_sorted:
  "sorted_wrt (\<lambda>a b. f a \<ge> f b) (py_sorted_reverse f xs)"
proof -
  have "sorted (map f (sort_key f (rev xs)))"
    by (rule sorted_sort_key)
  then have "sorted_wrt (\<lambda>a b. f a \<le> f b) (sort_key f (rev xs))"
    by (simp add: sorted_wrt_map)
  then show ?thesis
    by (simp add: py_sorted_reverse_def sorted_wrt_rev)
qed

lemma py_sorted_reverse_stable:
  "[x \<leftarrow> py_sorted_reverse f xs. f x = v] = [x \<leftarrow> xs. f x = v]"
  by (simp add: py_sorted_reverse_def rev_filter [symmetric] sort_key_stable)



lemma foldl_append_sections:
  "foldl (\<lambda>digest item. digest @ f item) h xs = h @ concat (map f xs)"
  by (induction xs arbitrary: h) simp_all

lemma generate_digest_render:
  "generate_digest analyses =
     (if relevant_tweets analyses = [] then ''No highly relevant tweets found in the latest batch.''
      else ''# Relevant Twitter Content Digest\<newline>\<newline>''
           @ concat (map digest_section (relevant_tweets analyses)))"
  by (simp add: generate_digest_def Let_def foldl_append_sections)

subsection \<open>Strings: splitting, stripping, reading a numeral\<close>

lemma split_pieces_fst: "fst (split_pieces sep s) = takeWhile (\<lambda>c. c \<noteq> sep) s"
  by (induction s) (simp_all add: split_beta)

lemma py_split_unfold:
  "py_split sep s =
     takeWhile (\<lambda>c. c \<noteq> sep) s
     # (case dropWhile (\<lambda>c. c \<noteq> sep) s of [] \<Rightarrow> [] | c # r \<Rightarrow> py_split sep r)"
  by (induction s) (simp_all add: py_split_def split_beta)

lemma py_split_first: "py_index (py_split sep s) 0 = Inr (takeWhile (\<lambda>c. c \<noteq> sep) s)"
  by (subst py_split_unfold) (simp add: py_index_def)

lemma dropWhile_ne_absent:
  assumes "sep \<notin> set s"
  shows "dropWhile (\<lambda>c. c \<noteq> sep) s = []"
  using assms by (induction s) auto

lemma dropWhile_ne_at:
  assumes "sep \<notin> set a"
  shows "dropWhile (\<lambda>c. c \<noteq> sep) (a @ sep # b) = sep # b"
  using assms by (induction a) auto

lemma takeWhile_ne_at:
  assumes "sep \<notin> set a"
  shows "takeWhile (\<lambda>c. c \<noteq> sep) (a @ sep # b) = a"
  using assms by (induction a) auto

lemma takeWhile_ne_past:
  assumes "sep \<notin> set a"
  shows "takeWhile (\<lambda>c. c \<noteq> sep) (a @ b) = a @ takeWhile (\<lambda>c. c \<noteq> sep) b"
  using assms by (induction a) auto

lemma py_split_second_absent:
  assumes "sep \<notin> set s"
  shows "py_index (py_split sep s) (Suc 0) = Inl IndexError"
proof -
  have "py_split sep s = [takeWhile (\<lambda>c. c \<noteq> sep) s]"
    by (subst py_split_unfold) (simp add: dropWhile_ne_absent assms)
  then show ?thesis
    by (simp add: py_index_def)
qed

lemma py_split_second:
  assumes "sep \<notin> set a"
  shows "py_index (py_split sep (a @ sep # b)) (Suc 0) = Inr (takeWhile (\<lambda>c. c \<noteq> sep) b)"
proof -
  have "py_split sep (a @ sep # b) = takeWhile (\<lambda>c. c \<noteq> sep) (a @ sep # b) # py_split sep b"
    by (subst py_split_unfold) (simp add: dropWhile_ne_at assms)
  moreover have "py_split sep b \<noteq> []"
    by (subst py_split_unfold) simp
  ultimately show ?thesis
    using py_split_first [of sep b]
    by (cases "py_split sep b") (simp_all add: py_index_def)
qed

lemma dropWhile_keep:
  assumes "\<not> P c"
  shows "dropWhile P (a @ c # b) = dropWhile P a @ c # b"
  using assms by (induction a) simp_all

lemma py_strip_around:
  assumes "\<not> py_isspace c"
  shows "py_strip (a @ c # b) = dropWhile py_isspace a @ c # rev (dropWhile py_isspace (rev b))"
  using assms by (simp add: py_strip_def dropWhile_keep)

lemma rstrip_around:
  assumes "\<not> P c"
  shows "rev (dropWhile P (rev (a @ c # b))) = a @ c # rev (dropWhile P (rev b))"
  using assms by (simp add: dropWhile_keep)

lemma dropWhile_none:
  assumes "\<forall>c \<in> set s. \<not> P c"
  shows "dropWhile P s = s"
  using assms by (cases s) simp_all

lemma dropWhile_member:
  assumes "c \<in> set s" and "\<not> P c"
  shows "c \<in> set (dropWhile P s)"
  using assms by (induction s) auto

lemma digits_ok_chars:
  assumes "digits_ok prev w"
  shows "\<forall>c \<in> set w. c = CHR ''_'' \<or> is_digit c"
  using assms by (induction w arbitrary: prev) (auto split: if_splits)

lemma digits_ok_digits:
  assumes "\<forall>c \<in> set w. is_digit c" and "w \<noteq> []"
  shows "digits_ok prev w"
  using assms
proof (induction w arbitrary: prev)
  case Nil
  then show ?case by simp
next
  case (Cons c w)
  then have c: "is_digit c" by simp
  then have ne: "c \<noteq> CHR ''_''" by (auto simp: is_digit_def)
  show ?case
  proof (cases w)
    case Nil
    with c ne show ?thesis by simp
  next
    case (Cons d w')
    with Cons.IH [of c] Cons.prems c ne show ?thesis by simp
  qed
qed

lemma set_py_strip: "set (py_strip s) \<subseteq> set s"
proof -
  have "set (py_strip s) \<subseteq> set (dropWhile py_isspace s)"
    unfolding py_strip_def set_rev by (auto dest: set_dropWhileD)
  then show ?thesis
    by (auto dest: set_dropWhileD)
qed

lemma extract_score_no_colon:
  assumes "CHR '':'' \<notin> set (takeWhile (\<lambda>c. c \<noteq> CHR ''\<newline>'') reply)"
  shows "extract_score reply = Inl IndexError"
proof -
  from assms set_py_strip
  have "CHR '':'' \<notin> set (py_strip (takeWhile (\<lambda>c. c \<noteq> CHR ''\<newline>'') reply))"
    by blast
  then show ?thesis
    by (simp add: extract_score_def py_split_first py_split_second_absent)
qed

lemma not_space_colon: "\<not> py_isspace CHR '':''"
  by (simp add: py_isspace_def)

lemma not_space_slash: "\<not> py_isspace CHR ''/''"
  by (simp add: py_isspace_def)

lemma extract_score_shape:
  assumes line: "takeWhile (\<lambda>c. c \<noteq> CHR ''\<newline>'') reply = label @ CHR '':'' # tok @ CHR ''/'' # rest"
    and label: "CHR '':'' \<notin> set label"
    and tok: "CHR '':'' \<notin> set tok" "CHR ''/'' \<notin> set tok"
  shows "extract_score reply = py_int (dropWhile py_isspace tok)"
proof -
  define rest1 where "rest1 = rev (dropWhile py_isspace (rev rest))"
  define rest2 where "rest2 = takeWhile (\<lambda>c. c \<noteq> CHR '':'') rest1"
  define rest3 where "rest3 = rev (dropWhile py_isspace (rev rest2))"
  have "py_strip (label @ CHR '':'' # tok @ CHR ''/'' # rest)
        = dropWhile py_isspace label @ CHR '':'' # rev (dropWhile py_isspace (rev (tok @ CHR ''/'' # rest)))"
    by (rule py_strip_around [OF not_space_colon])
  also have "rev (dropWhile py_isspace (rev (tok @ CHR ''/'' # rest))) = tok @ CHR ''/'' # rest1"
    unfolding rest1_def by (rule rstrip_around [where P = py_isspace, OF not_space_slash])
  finally have stripped: "py_strip (takeWhile (\<lambda>c. c \<noteq> CHR ''\<newline>'') reply)
        = dropWhile py_isspace label @ CHR '':'' # tok @ CHR ''/'' # rest1"
    by (simp add: line)
  from label have "CHR '':'' \<notin> set (dropWhile py_isspace label)"
    by (auto dest: set_dropWhileD)
  then have "py_index (py_split CHR '':'' (dropWhile py_isspace label @ CHR '':'' # tok @ CHR ''/'' # rest1)) (Suc 0)
        = Inr (takeWhile (\<lambda>c. c \<noteq> CHR '':'') (tok @ CHR ''/'' # rest1))"
    by (rule py_split_second)
  also have "takeWhile (\<lambda>c. c \<noteq> CHR '':'') (tok @ CHR ''/'' # rest1) = tok @ CHR ''/'' # rest2"
    unfolding rest2_def using tok(1) by (simp add: takeWhile_ne_past)
  finally have piece: "py_index (py_split CHR '':'' (py_strip (takeWhile (\<lambda>c. c \<noteq> CHR ''\<newline>'') reply))) (Suc 0)
        = Inr (tok @ CHR ''/'' # rest2)"
    by (simp add: stripped)
  have strip2: "py_strip (tok @ CHR ''/'' # rest2) = dropWhile py_isspace tok @ CHR ''/'' # rest3"
    unfolding rest3_def by (rule py_strip_around [OF not_space_slash])
  from tok(2) have "CHR ''/'' \<notin> set (dropWhile py_isspace tok)"
    by (auto dest: set_dropWhileD)
  then have token: "takeWhile (\<lambda>c. c \<noteq> CHR ''/'') (dropWhile py_isspace tok @ CHR ''/'' # rest3)
        = dropWhile py_isspace tok"
    by (rule takeWhile_ne_at)
  show ?thesis
    by (simp add: extract_score_def py_split_first piece strip2 token)
qed

lemma py_int_empty: "py_int [] = Inl ValueError"
  by (simp add: py_int_def)

lemma to_ascii_non_numeral:
  assumes "c \<in> set s" and "\<not> numeral_char c"
  shows "\<exists>b \<in> set (to_ascii s).
           \<not> is_digit b \<and> b \<noteq> CHR ''+'' \<and> b \<noteq> CHR ''-'' \<and> b \<noteq> CHR ''_'' \<and> \<not> ascii_isspace b"
  using assms
proof (induction s)
  case Nil
  then show ?case by simp
next
  case (Cons d s)
  have q: "\<not> is_digit CHR ''?'' \<and> \<not> ascii_isspace CHR ''?''"
    by (simp add: is_digit_def ascii_isspace_def)
  have sp: "ascii_isspace c \<Longrightarrow> py_isspace c"
    by (auto simp: ascii_isspace_def py_isspace_def Let_def)
  show ?case
  proof (cases "c = d")
    case True
    with Cons.prems(2) sp q show ?thesis
      by (auto simp: numeral_char_def)
  next
    case False
    with Cons.prems have "c \<in> set s" by simp
    from Cons.IH [OF this Cons.prems(2)] q show ?thesis
      by auto
  qed
qed

lemma py_int_non_numeral:
  assumes "c \<in> set s" and "\<not> numeral_char c"
  shows "py_int s = Inl ValueError"
proof -
  from to_ascii_non_numeral [OF assms] obtain b where
    b: "b \<in> set (to_ascii s)" "\<not> is_digit b" "b \<noteq> CHR ''+''" "b \<noteq> CHR ''-''"
       "b \<noteq> CHR ''_''" "\<not> ascii_isspace b"
    by blast
  define u where "u = dropWhile ascii_isspace (to_ascii s)"
  define v where "v = (case u of [] \<Rightarrow> [] | c # r \<Rightarrow> if c = CHR ''+'' \<or> c = CHR ''-'' then r else u)"
  define w where "w = rev (dropWhile ascii_isspace (rev v))"
  from b have "b \<in> set u"
    unfolding u_def by (simp add: dropWhile_member)
  with b have "b \<in> set v"
    unfolding v_def by (cases u) auto
  with b have "b \<in> set w"
    unfolding w_def by (simp add: dropWhile_member)
  with b have "\<not> digits_ok CHR ''_'' w"
    using digits_ok_chars [of "CHR ''_''" w] by blast
  then show ?thesis
    by (simp add: py_int_def Let_def u_def [symmetric] v_def [symmetric] w_def [symmetric])
qed

lemma digit_facts:
  assumes "is_digit c"
  shows "(of_char c :: nat) < 127" "\<not> ascii_isspace c" "\<not> py_isspace c"
    "c \<noteq> CHR ''+''" "c \<noteq> CHR ''-''" "c \<noteq> CHR ''_''" "c \<noteq> CHR '':''" "c \<noteq> CHR ''/''"
    "c \<noteq> CHR ''\<newline>''"
  using assms by (auto simp: is_digit_def ascii_isspace_def py_isspace_def Let_def)

lemma to_ascii_digits:
  assumes "\<forall>c \<in> set ds. is_digit c"
  shows "to_ascii ds = ds"
  using assms by (induction ds) (simp_all add: digit_facts)

lemma py_int_digits:
  assumes ne: "ds \<noteq> []" and dig: "\<forall>c \<in> set ds. is_digit c"
    and len: "length ds \<le> int_max_str_digits"
  shows "py_int ds = Inr (decimal_value ds)"
proof -
  from dig have nsp: "\<forall>c \<in> set ds. \<not> ascii_isspace c"
    by (simp add: digit_facts)
  then have u: "dropWhile ascii_isspace ds = ds"
    by (rule dropWhile_none)
  from nsp have "\<forall>c \<in> set (rev ds). \<not> ascii_isspace c" by simp
  then have w: "dropWhile ascii_isspace (rev ds) = rev ds"
    by (rule dropWhile_none)
  from ne obtain c r where cr: "ds = c # r" by (cases ds) auto
  with dig have c: "c \<noteq> CHR ''+''" "c \<noteq> CHR ''-''"
    by (simp_all add: digit_facts)
  from dig have "filter is_digit ds = ds" by (simp add: filter_id_conv)
  with len have len': "length (filter is_digit ds) \<le> int_max_str_digits" by simp
  have ok: "digits_ok CHR ''_'' ds"
    using dig ne by (rule digits_ok_digits)
  from cr c have v: "(case ds of [] \<Rightarrow> [] | c # r \<Rightarrow> if c = CHR ''+'' \<or> c = CHR ''-'' then r else ds) = ds"
    by simp
  from cr c have neg: "(case ds of [] \<Rightarrow> False | c # r \<Rightarrow> c = CHR ''-'') = False"
    by simp
  show ?thesis
    unfolding py_int_def Let_def to_ascii_digits [OF dig] u v neg w rev_rev_ident
    using ne ok len' by simp
qed

lemma digit_char_is_digit: "d < 10 \<Longrightarrow> is_digit (digit_char d)"
  by (simp add: digit_char_def is_digit_def)

lemma digit_val_digit_char: "d < 10 \<Longrightarrow> digit_val (digit_char d) = int d"
  by (simp add: digit_char_def digit_val_def)

lemma str_nat_digits: "\<forall>c \<in> set (str_nat n). is_digit c"
proof (induction n rule: str_nat.induct)
  case (1 n)
  show ?case
  proof (cases "n < 10")
    case True
    then show ?thesis
      by (subst str_nat.simps) (simp add: digit_char_is_digit)
  next
    case False
    with "1" show ?thesis
      by (subst str_nat.simps) (simp add: digit_char_is_digit)
  qed
qed

lemma str_nat_nonempty: "str_nat n \<noteq> []"
  by (subst str_nat.simps) simp

lemma decimal_value_snoc:
  assumes "d \<noteq> CHR ''_''"
  shows "decimal_value (ds @ [d]) = decimal_value ds * 10 + digit_val d"
  using assms by (simp add: decimal_value_def)

lemma decimal_value_str_nat: "decimal_value (str_nat n) = int n"
proof (induction n rule: str_nat.induct)
  case (1 n)
  show ?case
  proof (cases "n < 10")
    case True
    then have "digit_char n \<noteq> CHR ''_''"
      using digit_char_is_digit [of n] by (auto simp: digit_facts)
    with True show ?thesis
      by (subst str_nat.simps) (simp add: decimal_value_def digit_val_digit_char)
  next
    case False
    have "digit_char (n mod 10) \<noteq> CHR ''_''"
      using digit_char_is_digit [of "n mod 10"] by (auto simp: digit_facts)
    moreover have "int (n div 10) * 10 + int (n mod 10) = int n"
    proof -
      have "int (n div 10 * 10 + n mod 10) = int n" by simp
      then show ?thesis by (simp only: of_nat_add of_nat_mult of_nat_numeral)
    qed
    ultimately show ?thesis
      using False "1" by (subst str_nat.simps) (simp add: decimal_value_snoc digit_val_digit_char)
  qed
qed

subsection \<open>The engagement filter\<close>

text \<open>
  C1. For every list of tweets and every threshold \<open>k\<close>, the filter returns a subsequence
  of its input (the relative order is kept), an item is in the result exactly when it is
  in the input with \<open>favorite_count \<ge> k\<close>, every subsequence of the input whose items all
  reach \<open>k\<close> is a subsequence of the result (so the result is exactly the sublist of those
  items), and the empty list gives the empty list. The function is a pure function of its
  two arguments.
\<close>

theorem filter_tweets_by_engagement_exact:
  "subseq (filter_tweets_by_engagement tweets k) tweets
   \<and> (\<forall>t. t \<in> set (filter_tweets_by_engagement tweets k) \<longleftrightarrow> t \<in> set tweets \<and> favorite_count t \<ge> k)
   \<and> (\<forall>ys. subseq ys tweets \<and> (\<forall>t \<in> set ys. favorite_count t \<ge> k)
         \<longrightarrow> subseq ys (filter_tweets_by_engagement tweets k))
   \<and> filter_tweets_by_engagement [] k = []"
  unfolding filter_tweets_by_engagement_def
  by (auto intro: subseq_all_filter)

theorem filter_tweets_by_engagement_exact_witness:
  "filter_tweets_by_engagement [tweet_15, tweet_5] 10 = [tweet_15]
   \<and> subseq [tweet_15] [tweet_15, tweet_5]
   \<and> favorite_count tweet_15 \<ge> 10
   \<and> subseq [tweet_15] (filter_tweets_by_engagement [tweet_15, tweet_5] 10)"
  using filter_tweets_by_engagement_exact [of "[tweet_15, tweet_5]" 10]
  by (simp add: filter_tweets_by_engagement_def tweet_15_def tweet_5_def)

subsection \<open>The digest\<close>

text \<open>
  C2. For every list of scored analyses, the items that \<^verbatim>\<open>generate_digest\<close> renders are in
  non-increasing order of score; for every score \<open>v\<close> the items of score \<open>v\<close> appear in the
  order they had in the input (the sort is stable); and the digest is the header followed
  by the sections of these items in this order (or the fixed sentence when there is none).
\<close>

theorem generate_digest_sorted_stable:
  "sorted_wrt (\<lambda>a b. score a \<ge> score b) (relevant_tweets analyses)
   \<and> (\<forall>v. [a \<leftarrow> relevant_tweets analyses. score a = v]
          = [a \<leftarrow> [a \<leftarrow> analyses. score a \<ge> 7]. score a = v])
   \<and> generate_digest analyses =
       (if relevant_tweets analyses = [] then ''No highly relevant tweets found in the latest batch.''
        else ''# Relevant Twitter Content Digest\<newline>\<newline>''
             @ concat (map digest_section (relevant_tweets analyses)))"
  using generate_digest_render [of analyses]
  by (simp add: relevant_tweets_def py_sorted_reverse_sorted py_sorted_reverse_stable)

theorem generate_digest_sorted_stable_witness:
  "relevant_tweets [scored_as tweet_5 7, scored_as tweet_15 9, scored_as tweet_15 6, scored_as tweet_5 9]
     = [scored_as tweet_15 9, scored_as tweet_5 9, scored_as tweet_5 7]
   \<and> sorted_wrt (\<lambda>a b. score a \<ge> score b)
        (relevant_tweets [scored_as tweet_5 7, scored_as tweet_15 9, scored_as tweet_15 6, scored_as tweet_5 9])
   \<and> [a \<leftarrow> relevant_tweets [scored_as tweet_5 7, scored_as tweet_15 9, scored_as tweet_15 6, scored_as tweet_5 9]. score a = 9]
      = [scored_as tweet_15 9, scored_as tweet_5 9]"
proof -
  have "relevant_tweets [scored_as tweet_5 7, scored_as tweet_15 9, scored_as tweet_15 6, scored_as tweet_5 9]
     = [scored_as tweet_15 9, scored_as tweet_5 9, scored_as tweet_5 7]"
    by code_simp
  moreover have "score (scored_as tweet_15 9) = 9" "score (scored_as tweet_5 9) = 9" "score (scored_as tweet_5 7) = 7"
    by (simp_all add: scored_as_def)
  ultimately show ?thesis
    using generate_digest_sorted_stable [of "[scored_as tweet_5 7, scored_as tweet_15 9, scored_as tweet_15 6, scored_as tweet_5 9]"]
    by simp
qed



subsection \<open>The notifier\<close>

text \<open>
  C5. For every digest, the description of the payload handed to the webhook is the first
  2000 characters of the digest followed by \<^verbatim>\<open>...\<close> when the digest is longer than 2000
  characters, and the digest unchanged when its length is at most 2000; this payload is
  what \<^verbatim>\<open>send_to_discord\<close> posts.
\<close>

theorem send_to_discord_truncation:
  "(length digest > 2000 \<longrightarrow>
      map description (embeds (discord_payload digest)) = [take 2000 digest @ ''...''])
   \<and> (length digest \<le> 2000 \<longrightarrow>
      map description (embeds (discord_payload digest)) = [digest])
   \<and> posted (snd (send_to_discord e digest w)) = posted w @ [discord_payload digest]"
  by (simp add: discord_payload_def send_to_discord_def Let_def py_print_def split: sum.split)

theorem send_to_discord_truncation_witness:
  "length (replicate 2001 CHR ''a'') > 2000
   \<and> map description (embeds (discord_payload (replicate 2001 CHR ''a'')))
       = [replicate 2000 CHR ''a'' @ ''...'']
   \<and> length ''short digest'' \<le> 2000
   \<and> map description (embeds (discord_payload ''short digest'')) = [''short digest'']"
  using send_to_discord_truncation [of "replicate 2001 CHR ''a''"] send_to_discord_truncation [of "''short digest''"]
  by simp

subsection \<open>The scorer\<close>

lemma analyze_tweet_relevance_result:
  assumes "llm_create e k (relevance_prompt tw) = Inr reply"
  shows "analyze_tweet_relevance e k tw =
     Inr \<lparr>tweet = tw,
          tweet_url = ''https://twitter.com/'' @ screen_name tw @ ''/status/'' @ id_str tw,
          score = (case extract_score reply of Inl err \<Rightarrow> 0 | Inr n \<Rightarrow> n),
          analysis = reply\<rparr>"
  using assms by (simp add: analyze_tweet_relevance_def)

lemma py_int_negative:
  assumes ne: "ds \<noteq> []" and dig: "\<forall>c \<in> set ds. is_digit c"
    and len: "length ds \<le> int_max_str_digits"
  shows "py_int (CHR ''-'' # ds) = Inr (- decimal_value ds)"
proof -
  have minus: "(of_char CHR ''-'' :: nat) < 127" "\<not> ascii_isspace CHR ''-''"
    by (simp_all add: ascii_isspace_def)
  from dig have "\<forall>c \<in> set (rev ds). \<not> ascii_isspace c"
    by (simp add: digit_facts)
  then have w: "dropWhile ascii_isspace (rev ds) = rev ds"
    by (rule dropWhile_none)
  from dig have "filter is_digit ds = ds" by (simp add: filter_id_conv)
  with len have len': "length (filter is_digit ds) \<le> int_max_str_digits" by simp
  have ok: "digits_ok CHR ''_'' ds"
    using dig ne by (rule digits_ok_digits)
  have "to_ascii (CHR ''-'' # ds) = CHR ''-'' # ds"
    using minus by (simp add: to_ascii_digits [OF dig])
  then show ?thesis
    unfolding py_int_def Let_def using minus ne ok len' w by simp
qed

lemma py_int_str_int:
  assumes "length (str_int i) \<le> int_max_str_digits"
  shows "py_int (str_int i) = Inr i"
proof (cases "i < 0")
  case True
  with assms have "length (str_nat (nat (- i))) \<le> int_max_str_digits"
    by (simp add: str_int_def)
  then have "py_int (CHR ''-'' # str_nat (nat (- i))) = Inr (- decimal_value (str_nat (nat (- i))))"
    by (intro py_int_negative str_nat_nonempty str_nat_digits)
  with True show ?thesis
    by (simp add: str_int_def decimal_value_str_nat)
next
  case False
  with assms have "length (str_nat (nat i)) \<le> int_max_str_digits"
    by (simp add: str_int_def)
  then have "py_int (str_nat (nat i)) = Inr (decimal_value (str_nat (nat i)))"
    by (intro py_int_digits str_nat_nonempty str_nat_digits)
  with False show ?thesis
    by (simp add: str_int_def decimal_value_str_nat)
qed

lemma str_int_chars:
  "\<forall>c \<in> set (str_int i). c \<noteq> CHR '':'' \<and> c \<noteq> CHR ''/'' \<and> c \<noteq> CHR ''\<newline>'' \<and> \<not> py_isspace c"
proof -
  have minus: "\<not> py_isspace CHR ''-''"
    by (simp add: py_isspace_def)
  have "\<forall>c \<in> set (str_int i). is_digit c \<or> c = CHR ''-''"
    using str_nat_digits [of "nat (- i)"] str_nat_digits [of "nat i"]
    by (auto simp: str_int_def)
  moreover have "\<not> is_digit CHR '':''" "\<not> is_digit CHR ''/''" "\<not> is_digit CHR ''\<newline>''"
    by (simp_all add: is_digit_def)
  ultimately show ?thesis
    using minus by (fastforce simp: digit_facts)
qed

lemma extract_score_written:
  assumes "length (str_int i) \<le> int_max_str_digits"
  shows "extract_score (''Score: '' @ str_int i @ ''/10'' @ rest) = Inr i"
proof -
  define rest1 where "rest1 = ''10'' @ takeWhile (\<lambda>c. c \<noteq> CHR ''\<newline>'') rest"
  have "CHR ''\<newline>'' \<notin> set (''Score: '' @ str_int i @ ''/10'')"
    using str_int_chars [of i] by auto
  then have "takeWhile (\<lambda>c. c \<noteq> CHR ''\<newline>'') ((''Score: '' @ str_int i @ ''/10'') @ rest)
      = (''Score: '' @ str_int i @ ''/10'') @ takeWhile (\<lambda>c. c \<noteq> CHR ''\<newline>'') rest"
    by (rule takeWhile_ne_past)
  then have line: "takeWhile (\<lambda>c. c \<noteq> CHR ''\<newline>'') (''Score: '' @ str_int i @ ''/10'' @ rest)
      = ''Score'' @ CHR '':'' # (CHR '' '' # str_int i) @ CHR ''/'' # rest1"
    by (simp add: rest1_def)
  have "extract_score (''Score: '' @ str_int i @ ''/10'' @ rest)
      = py_int (dropWhile py_isspace (CHR '' '' # str_int i))"
    using str_int_chars [of i] by (intro extract_score_shape [OF line]) auto
  also have "dropWhile py_isspace (CHR '' '' # str_int i) = str_int i"
    using str_int_chars [of i] by (simp add: py_isspace_def dropWhile_none)
  finally show ?thesis
    by (simp add: py_int_str_int [OF assms])
qed

lemma extract_score_blank_token:
  assumes "takeWhile (\<lambda>c. c \<noteq> CHR ''\<newline>'') reply = label @ '':'' @ tok @ ''/'' @ rest"
    and "CHR '':'' \<notin> set label" and "\<forall>c \<in> set tok. py_isspace c"
  shows "extract_score reply = Inl ValueError"
proof -
  from assms(3) have tok: "CHR '':'' \<notin> set tok" "CHR ''/'' \<notin> set tok"
    using not_space_colon not_space_slash by blast+
  from assms(1) have "takeWhile (\<lambda>c. c \<noteq> CHR ''\<newline>'') reply = label @ CHR '':'' # tok @ CHR ''/'' # rest"
    by simp
  from extract_score_shape [OF this assms(2) tok]
  have "extract_score reply = py_int (dropWhile py_isspace tok)" .
  also from assms(3) have "dropWhile py_isspace tok = []"
    by simp
  finally show ?thesis
    by (simp add: py_int_empty)
qed

lemma extract_score_non_numeral_token:
  assumes "takeWhile (\<lambda>c. c \<noteq> CHR ''\<newline>'') reply = label @ '':'' @ tok @ ''/'' @ rest"
    and "CHR '':'' \<notin> set label" and "CHR '':'' \<notin> set tok" and "CHR ''/'' \<notin> set tok"
    and "c \<in> set tok" and "\<not> numeral_char c"
  shows "extract_score reply = Inl ValueError"
proof -
  from assms(1) have "takeWhile (\<lambda>c. c \<noteq> CHR ''\<newline>'') reply = label @ CHR '':'' # tok @ CHR ''/'' # rest"
    by simp
  from extract_score_shape [OF this assms(2,3,4)]
  have "extract_score reply = py_int (dropWhile py_isspace tok)" .
  moreover from assms(6) have "\<not> py_isspace c"
    by (simp add: numeral_char_def)
  with assms(5) have "c \<in> set (dropWhile py_isspace tok)"
    by (rule dropWhile_member)
  then have "py_int (dropWhile py_isspace tok) = Inl ValueError"
    using assms(6) by (rule py_int_non_numeral)
  ultimately show ?thesis by simp
qed



text \<open>
  C7, as the code has it. The score of a scored item is 0 when the extraction raises and
  the integer that the extraction reads otherwise; no range is enforced: an answer
  \<^verbatim>\<open>Score: i/10\<close> followed by any text gives the score \<open>i\<close>, for every integer \<open>i\<close> whose
  decimal text is within the digit limit of \<^verbatim>\<open>int\<close>, whether or not \<open>i\<close> lies in 1..10.
\<close>

theorem score_is_written_integer:
  assumes "llm_create e k (relevance_prompt tw) = Inr reply"
  shows "\<exists>a. analyze_tweet_relevance e k tw = Inr a
          \<and> (\<forall>err. extract_score reply = Inl err \<longrightarrow> score a = 0)
          \<and> (\<forall>n. extract_score reply = Inr n \<longrightarrow> score a = n)
          \<and> (length (str_int i) \<le> int_max_str_digits
               \<and> reply = ''Score: '' @ str_int i @ ''/10'' @ rest \<longrightarrow> score a = i)"
proof -
  define a where "a = \<lparr>tweet = tw,
          tweet_url = ''https://twitter.com/'' @ screen_name tw @ ''/status/'' @ id_str tw,
          score = (case extract_score reply of Inl err \<Rightarrow> 0 | Inr n \<Rightarrow> n),
          analysis = reply\<rparr>"
  have res: "analyze_tweet_relevance e k tw = Inr a"
    unfolding a_def using assms by (rule analyze_tweet_relevance_result)
  have sc: "score a = (case extract_score reply of Inl err \<Rightarrow> 0 | Inr n \<Rightarrow> n)"
    by (simp add: a_def)
  have "score a = i"
    if "length (str_int i) \<le> int_max_str_digits"
      and "reply = ''Score: '' @ str_int i @ ''/10'' @ rest"
  proof -
    from that have "extract_score reply = Inr i"
      by (simp only: extract_score_written)
    with sc show ?thesis by simp
  qed
  with res sc show ?thesis
    by auto
qed

theorem score_is_written_integer_witness:
  "llm_create (env_answering (api_response 200 [tweet_15]) ''Score: 15/10'') 0
       (relevance_prompt tweet_15) = Inr ''Score: 15/10''
   \<and> length (str_int 15) \<le> int_max_str_digits
   \<and> ''Score: 15/10'' = ''Score: '' @ str_int 15 @ ''/10'' @ []
   \<and> extract_score ''Score: 15/10'' = Inr 15
   \<and> (\<exists>a. analyze_tweet_relevance (env_answering (api_response 200 [tweet_15]) ''Score: 15/10'') 0 tweet_15
            = Inr a \<and> score a = 15)
   \<and> llm_create (env_answering (api_response 200 [tweet_15]) ''Score: high'') 0
       (relevance_prompt tweet_15) = Inr ''Score: high''
   \<and> extract_score ''Score: high'' = Inl ValueError
   \<and> (\<exists>a. analyze_tweet_relevance (env_answering (api_response 200 [tweet_15]) ''Score: high'') 0 tweet_15
            = Inr a \<and> score a = 0)"
proof -
  have h1: "llm_create (env_answering (api_response 200 [tweet_15]) reply) 0
       (relevance_prompt tweet_15) = Inr reply" for reply
    by (simp add: env_answering_def)
  have h2: "str_int 15 = ''15''" by code_simp
  have h3: "length (str_int 15) \<le> int_max_str_digits"
    by (simp add: h2 int_max_str_digits_def)
  have h4: "extract_score ''Score: 15/10'' = Inr 15" by code_simp
  have h5: "extract_score ''Score: high'' = Inl ValueError" by code_simp
  from score_is_written_integer [OF h1, of "''Score: 15/10''" 15 "[]"]
    score_is_written_integer [OF h1, of "''Score: high''" 15 "[]"]
    h1 h2 h3 h4 h5 show ?thesis
    by auto
qed

text \<open>
  The claim C7 as it is written fails: the answer \<^verbatim>\<open>Score: 15/10\<close> is parsed, and the item
  gets the score 15, which is neither in 1..10 nor 0.
\<close>

theorem score_out_of_range_counterexample:
  "analyze_tweet_relevance (env_answering (api_response 200 [tweet_15]) ''Score: 15/10'') 0 tweet_15
     = Inr (scored_as tweet_15 15)
   \<and> score (scored_as tweet_15 15) = 15"
proof -
  have "extract_score ''Score: 15/10'' = Inr 15" by code_simp
  moreover have "str_int 15 = ''15''" by code_simp
  ultimately show ?thesis
    by (simp add: analyze_tweet_relevance_def env_answering_def scored_as_def)
qed

text \<open>
  C10. Whenever the model returns a text, \<^verbatim>\<open>analyze_tweet_relevance\<close> returns an item (it
  does not raise), and the score of the item is 0 in each of these cases: the first line
  has no colon (a bare \<^verbatim>\<open>8\<close>, for one); between the first colon and the slash after it
  there is nothing but blanks; between the first colon and the slash after it there is a
  character that no numeral contains.
\<close>

theorem score_extraction_total:
  assumes "llm_create e k (relevance_prompt tw) = Inr reply"
  shows "\<exists>a. analyze_tweet_relevance e k tw = Inr a
          \<and> (CHR '':'' \<notin> set (takeWhile (\<lambda>c. c \<noteq> CHR ''\<newline>'') reply) \<longrightarrow> score a = 0)
          \<and> (takeWhile (\<lambda>c. c \<noteq> CHR ''\<newline>'') reply = label @ '':'' @ tok @ ''/'' @ rest
               \<and> CHR '':'' \<notin> set label \<and> (\<forall>c \<in> set tok. py_isspace c) \<longrightarrow> score a = 0)
          \<and> (takeWhile (\<lambda>c. c \<noteq> CHR ''\<newline>'') reply = label @ '':'' @ tok @ ''/'' @ rest
               \<and> CHR '':'' \<notin> set label \<and> CHR '':'' \<notin> set tok \<and> CHR ''/'' \<notin> set tok
               \<and> (\<exists>c \<in> set tok. \<not> numeral_char c) \<longrightarrow> score a = 0)"
proof -
  define a where "a = \<lparr>tweet = tw,
          tweet_url = ''https://twitter.com/'' @ screen_name tw @ ''/status/'' @ id_str tw,
          score = (case extract_score reply of Inl err \<Rightarrow> 0 | Inr n \<Rightarrow> n),
          analysis = reply\<rparr>"
  have res: "analyze_tweet_relevance e k tw = Inr a"
    unfolding a_def using assms by (rule analyze_tweet_relevance_result)
  have zero: "score a = 0" if "extract_score reply = Inl err" for err
    using that by (simp add: a_def)
  have "score a = 0" if "CHR '':'' \<notin> set (takeWhile (\<lambda>c. c \<noteq> CHR ''\<newline>'') reply)"
    using extract_score_no_colon [OF that] by (rule zero)
  moreover have "score a = 0"
    if "takeWhile (\<lambda>c. c \<noteq> CHR ''\<newline>'') reply = label @ '':'' @ tok @ ''/'' @ rest"
      and "CHR '':'' \<notin> set label" and "\<forall>c \<in> set tok. py_isspace c"
    using extract_score_blank_token [OF that] by (rule zero)
  moreover have "score a = 0"
    if "takeWhile (\<lambda>c. c \<noteq> CHR ''\<newline>'') reply = label @ '':'' @ tok @ ''/'' @ rest"
      and "CHR '':'' \<notin> set label" and "CHR '':'' \<notin> set tok" and "CHR ''/'' \<notin> set tok"
      and "\<exists>c \<in> set tok. \<not> numeral_char c"
  proof -
    from that(5) obtain c where "c \<in> set tok" "\<not> numeral_char c" by blast
    from extract_score_non_numeral_token [OF that(1,2,3,4) this] show ?thesis by (rule zero)
  qed
  ultimately show ?thesis
    using res by blast
qed

theorem score_extraction_total_witness:
  "(\<exists>a. analyze_tweet_relevance (env_answering (api_response 200 [tweet_15]) ''8'') 0 tweet_15 = Inr a
        \<and> CHR '':'' \<notin> set (takeWhile (\<lambda>c. c \<noteq> CHR ''\<newline>'') ''8'') \<and> score a = 0)
   \<and> (\<exists>a. analyze_tweet_relevance (env_answering (api_response 200 [tweet_15]) ''Score: /10'') 0 tweet_15 = Inr a
        \<and> takeWhile (\<lambda>c. c \<noteq> CHR ''\<newline>'') ''Score: /10'' = ''Score'' @ '':'' @ '' '' @ ''/'' @ ''10''
        \<and> score a = 0)
   \<and> (\<exists>a. analyze_tweet_relevance (env_answering (api_response 200 [tweet_15]) ''Score: eight/10'') 0 tweet_15 = Inr a
        \<and> takeWhile (\<lambda>c. c \<noteq> CHR ''\<newline>'') ''Score: eight/10'' = ''Score'' @ '':'' @ '' eight'' @ ''/'' @ ''10''
        \<and> \<not> numeral_char CHR ''e''
        \<and> score a = 0)"
proof -
  have h: "llm_create (env_answering (api_response 200 [tweet_15]) reply) 0 (relevance_prompt tweet_15) = Inr reply"
    for reply
    by (simp add: env_answering_def)
  have sp: "py_isspace CHR '' ''"
    by (simp add: py_isspace_def)
  have e: "\<not> numeral_char CHR ''e''"
    by (simp add: numeral_char_def is_digit_def py_isspace_def)
  from score_extraction_total [OF h, of "''8''"]
  have "\<exists>a. analyze_tweet_relevance (env_answering (api_response 200 [tweet_15]) ''8'') 0 tweet_15 = Inr a
        \<and> CHR '':'' \<notin> set (takeWhile (\<lambda>c. c \<noteq> CHR ''\<newline>'') ''8'') \<and> score a = 0"
    by auto
  moreover
  from score_extraction_total [OF h, of "''Score: /10''" "''Score''" "'' ''" "''10''"] sp
  have "\<exists>a. analyze_tweet_relevance (env_answering (api_response 200 [tweet_15]) ''Score: /10'') 0 tweet_15 = Inr a
        \<and> takeWhile (\<lambda>c. c \<noteq> CHR ''\<newline>'') ''Score: /10'' = ''Score'' @ '':'' @ '' '' @ ''/'' @ ''10''
        \<and> score a = 0"
    by auto
  moreover
  from score_extraction_total [OF h, of "''Score: eight/10''" "''Score''" "'' eight''" "''10''"] e
  have "\<exists>a. analyze_tweet_relevance (env_answering (api_response 200 [tweet_15]) ''Score: eight/10'') 0 tweet_15 = Inr a
        \<and> takeWhile (\<lambda>c. c \<noteq> CHR ''\<newline>'') ''Score: eight/10'' = ''Score'' @ '':'' @ '' eight'' @ ''/'' @ ''10''
        \<and> \<not> numeral_char CHR ''e''
        \<and> score a = 0"
    by auto
  ultimately show ?thesis
    by blast
qed

subsection \<open>The collector\<close>

text \<open>
  C6. When the source API answers with a status other than 200, \<^verbatim>\<open>fetch_list_tweets\<close>
  prints the status and the body and returns the empty list, without raising; a fetch
  answered with status 200 and no tweets returns the same value, and the script then
  saves the same file, so the caller cannot tell the two apart.
\<close>

theorem fetch_failure_returns_empty:
  assumes "api_get e = Inr response" and "status_code response \<noteq> 200"
  shows "fetch_list_tweets e w =
           (Inr [], w\<lparr>stdout := stdout w @ [''Error fetching tweets: '' @ str_int (status_code response),
                                            response_text response]\<rparr>)
         \<and> (api_get e' = Inr response' \<and> status_code response' = 200
              \<and> response_json response' = Inr data \<and> data ''tweets'' = Some []
            \<longrightarrow> fst (fetch_list_tweets e' w') = fst (fetch_list_tweets e w)
                \<and> tweets_for_analysis_json (snd (fetch_tweets_main e' w'))
                    = tweets_for_analysis_json (snd (fetch_tweets_main e w)))"
  using assms
  by (simp add: fetch_list_tweets_def fetch_tweets_main_def save_tweets_for_analysis_def
        filter_tweets_by_engagement_def py_print_def Let_def)

theorem fetch_failure_returns_empty_witness:
  "api_get (env_offline (api_response 503 [])) = Inr (api_response 503 [])
   \<and> status_code (api_response 503 []) \<noteq> 200
   \<and> fetch_list_tweets (env_offline (api_response 503 [])) empty_world
       = (Inr [], empty_world\<lparr>stdout := [''Error fetching tweets: 503'', ''{}'']\<rparr>)
   \<and> fst (fetch_list_tweets (env_offline (api_response 200 [])) empty_world)
       = fst (fetch_list_tweets (env_offline (api_response 503 [])) empty_world)"
proof -
  have h1: "api_get (env_offline (api_response 503 [])) = Inr (api_response 503 [])"
    by (simp add: env_offline_def)
  have h2: "status_code (api_response 503 []) \<noteq> 200"
    by (simp add: api_response_def)
  have h3: "str_int 503 = ''503''"
    by code_simp
  from fetch_failure_returns_empty [OF h1 h2, of empty_world "env_offline (api_response 200 [])"
      "api_response 200 []" "\<lambda>key. if key = ''tweets'' then Some [] else None" empty_world]
    h1 h2 h3
  show ?thesis
    by (simp add: api_response_def env_offline_def empty_world_def)
qed

subsection \<open>The workflow\<close>

lemma py_print_fields [simp]:
  "tweets_for_analysis_json (py_print s w) = tweets_for_analysis_json w"
  "twitter_digest_md (py_print s w) = twitter_digest_md w"
  "posted (py_print s w) = posted w"
  "spawned (py_print s w) = spawned w"
  "stdout (py_print s w) = stdout w @ [s]"
  by (simp_all add: py_print_def)

lemma fetch_list_tweets_frame:
  "tweets_for_analysis_json (snd (fetch_list_tweets e w)) = tweets_for_analysis_json w"
  "twitter_digest_md (snd (fetch_list_tweets e w)) = twitter_digest_md w"
  "posted (snd (fetch_list_tweets e w)) = posted w"
  "spawned (snd (fetch_list_tweets e w)) = spawned w"
  by (simp_all add: fetch_list_tweets_def split: sum.split option.split)

lemma fetch_tweets_main_frame:
  "twitter_digest_md (snd (fetch_tweets_main e w)) = twitter_digest_md w"
  "posted (snd (fetch_tweets_main e w)) = posted w"
  "spawned (snd (fetch_tweets_main e w)) = spawned w"
  using fetch_list_tweets_frame [of e w]
  by (auto simp: fetch_tweets_main_def save_tweets_for_analysis_def Let_def
           split: prod.split sum.split)

lemma analyze_tweets_main_frame:
  "tweets_for_analysis_json (snd (analyze_tweets_main e w)) = tweets_for_analysis_json w"
  "posted (snd (analyze_tweets_main e w)) = posted w"
  "spawned (snd (analyze_tweets_main e w)) = spawned w"
  by (simp_all add: analyze_tweets_main_def Let_def split: sum.split)


lemma send_notification_main_posted:
  "posted (snd (send_notification_main e w)) =
     (case twitter_digest_md w of None \<Rightarrow> posted w | Some d \<Rightarrow> posted w @ [discord_payload d])"
  by (simp add: send_notification_main_def read_digest_def send_to_discord_def Let_def
           split: sum.split option.split)

lemma subprocess_run_snd:
  "snd (subprocess_run name script e w) = snd (script e (w\<lparr>spawned := spawned w @ [name]\<rparr>))"
  by (simp add: subprocess_run_def split: prod.split)

lemma subprocess_run_fst:
  "fst (subprocess_run name script e w) =
     (case fst (script e (w\<lparr>spawned := spawned w @ [name]\<rparr>)) of Inl err \<Rightarrow> 1 | Inr u \<Rightarrow> 0)"
  by (simp add: subprocess_run_def split: prod.split)

lemma workflow_step_1_frame:
  "twitter_digest_md (snd (workflow_step_1 e w)) = twitter_digest_md w"
  "posted (snd (workflow_step_1 e w)) = posted w"
  "spawned (snd (workflow_step_1 e w)) = spawned w @ [''fetch_tweets.py'']"
  by (simp_all add: workflow_step_1_def subprocess_run_snd fetch_tweets_main_frame)

lemma workflow_step_2_frame:
  "tweets_for_analysis_json (snd (workflow_step_2 e w)) = tweets_for_analysis_json w"
  "posted (snd (workflow_step_2 e w)) = posted w"
  "spawned (snd (workflow_step_2 e w)) = spawned w @ [''analyze_tweets.py'']"
  by (simp_all add: workflow_step_2_def subprocess_run_snd analyze_tweets_main_frame)


lemma workflow_step_3_posted:
  "posted (workflow_step_3 e w) =
     (case twitter_digest_md w of None \<Rightarrow> posted w | Some d \<Rightarrow> posted w @ [discord_payload d])"
  by (simp add: workflow_step_3_def subprocess_run_snd send_notification_main_posted
           split: option.split)

lemma analyze_tweets_main_completes:
  assumes "analyze_tweets_main e w = (Inr (), w')"
  shows "\<exists>tweets analyses. load_tweets w = Inr tweets \<and> analyze_all e 0 tweets = Inr analyses
           \<and> twitter_digest_md w' = Some (generate_digest analyses)"
  using assms
  by (auto simp: analyze_tweets_main_def Let_def split: sum.splits)

lemma analyze_tweets_main_digest:
  assumes "tweets_for_analysis_json w = Some tweets" and "analyze_all e 0 tweets = Inr analyses"
  shows "fst (analyze_tweets_main e w) = Inr ()"
    and "twitter_digest_md (snd (analyze_tweets_main e w)) = Some (generate_digest analyses)"
  using assms by (simp_all add: analyze_tweets_main_def load_tweets_def Let_def)

lemma generate_digest_nothing_relevant:
  assumes "relevant_tweets analyses = []"
  shows "generate_digest analyses = ''No highly relevant tweets found in the latest batch.''"
  using assms by (simp add: generate_digest_def)

lemma workflow_step_2_no_digest:
  assumes "twitter_digest_md (snd (workflow_step_2 e w)) = None"
  shows "fst (workflow_step_2 e w) = 1"
proof -
  define w4 where "w4 = (py_print ''\<newline>--- Analyzing Tweets ---'' w)
                          \<lparr>spawned := spawned (py_print ''\<newline>--- Analyzing Tweets ---'' w)
                                        @ [''analyze_tweets.py'']\<rparr>"
  from assms have none: "twitter_digest_md (snd (analyze_tweets_main e w4)) = None"
    by (simp add: workflow_step_2_def subprocess_run_snd w4_def)
  have "fst (analyze_tweets_main e w4) \<noteq> Inr ()"
  proof
    assume "fst (analyze_tweets_main e w4) = Inr ()"
    then have "analyze_tweets_main e w4 = (Inr (), snd (analyze_tweets_main e w4))"
      by (simp add: prod_eq_iff)
    from analyze_tweets_main_completes [OF this] none show False
      by auto
  qed
  then obtain err where "fst (analyze_tweets_main e w4) = Inl err"
    by (cases "fst (analyze_tweets_main e w4)") auto
  then show ?thesis
    by (simp add: workflow_step_2_def subprocess_run_fst w4_def)
qed



text \<open>
  C9. When the scoring script completes it has written the digest file, with the digest
  of the analyses; when no analysis is relevant the digest is the fixed sentence. So step
  2 of the workflow leaves no digest file only when the scoring script ended with an
  exception (return code 1); and when the scoring script completes with nothing relevant,
  the workflow still posts a payload whose description is the fixed sentence.
\<close>

theorem scoring_stage_always_writes_digest:
  "(analyze_tweets_main e w = (Inr (), w') \<longrightarrow>
      (\<exists>tweets analyses. load_tweets w = Inr tweets \<and> analyze_all e 0 tweets = Inr analyses
         \<and> twitter_digest_md w' = Some (generate_digest analyses)))
   \<and> (relevant_tweets analyses = [] \<longrightarrow>
        generate_digest analyses = ''No highly relevant tweets found in the latest batch.'')
   \<and> (twitter_digest_md (snd (workflow_step_2 e w3)) = None \<longrightarrow> fst (workflow_step_2 e w3) = 1)
   \<and> (tweets_for_analysis_json (snd (workflow_step_1 e w)) = Some tweets
        \<and> analyze_all e 0 tweets = Inr analyses \<and> relevant_tweets analyses = [] \<longrightarrow>
        twitter_digest_md (snd (workflow_step_2 e (snd (workflow_step_1 e w))))
          = Some ''No highly relevant tweets found in the latest batch.''
        \<and> posted (run_full_workflow e w)
            = posted w @ [discord_payload ''No highly relevant tweets found in the latest batch.'']
        \<and> map description (embeds (discord_payload ''No highly relevant tweets found in the latest batch.''))
            = [''No highly relevant tweets found in the latest batch.''])"
proof (intro conjI impI)
  assume "analyze_tweets_main e w = (Inr (), w')"
  then show "\<exists>tweets analyses. load_tweets w = Inr tweets \<and> analyze_all e 0 tweets = Inr analyses
         \<and> twitter_digest_md w' = Some (generate_digest analyses)"
    by (rule analyze_tweets_main_completes)
next
  assume "relevant_tweets analyses = []"
  then show "generate_digest analyses = ''No highly relevant tweets found in the latest batch.''"
    by (rule generate_digest_nothing_relevant)
next
  assume "twitter_digest_md (snd (workflow_step_2 e w3)) = None"
  then show "fst (workflow_step_2 e w3) = 1"
    by (rule workflow_step_2_no_digest)
next
  assume h: "tweets_for_analysis_json (snd (workflow_step_1 e w)) = Some tweets
        \<and> analyze_all e 0 tweets = Inr analyses \<and> relevant_tweets analyses = []"
  define w3 where "w3 = snd (workflow_step_1 e w)"
  define w4 where "w4 = (py_print ''\<newline>--- Analyzing Tweets ---'' w3)
                          \<lparr>spawned := spawned (py_print ''\<newline>--- Analyzing Tweets ---'' w3)
                                        @ [''analyze_tweets.py'']\<rparr>"
  define w5 where "w5 = snd (workflow_step_2 e w3)"
  from h have "tweets_for_analysis_json w4 = Some tweets"
    by (simp add: w4_def w3_def)
  with h have "twitter_digest_md (snd (analyze_tweets_main e w4)) = Some (generate_digest analyses)"
    by (simp add: analyze_tweets_main_digest)
  with h have digest: "twitter_digest_md w5 = Some ''No highly relevant tweets found in the latest batch.''"
    by (simp add: w5_def workflow_step_2_def subprocess_run_snd w4_def generate_digest_nothing_relevant)
  then show "twitter_digest_md (snd (workflow_step_2 e (snd (workflow_step_1 e w))))
          = Some ''No highly relevant tweets found in the latest batch.''"
    by (simp add: w5_def w3_def)
  have "posted w5 = posted w"
    by (simp add: w5_def w3_def workflow_step_2_frame workflow_step_1_frame)
  with digest show "posted (run_full_workflow e w)
            = posted w @ [discord_payload ''No highly relevant tweets found in the latest batch.'']"
    by (simp add: run_full_workflow_def Let_def w5_def [symmetric] w3_def [symmetric]
          workflow_step_3_posted)
  show "map description (embeds (discord_payload ''No highly relevant tweets found in the latest batch.''))
            = [''No highly relevant tweets found in the latest batch.'']"
    by (simp add: discord_payload_def)
qed

theorem scoring_stage_always_writes_digest_witness:
  "tweets_for_analysis_json
      (snd (workflow_step_1 (env_answering (api_response 200 [tweet_15, tweet_5]) ''Score: 3/10'') empty_world))
     = Some [tweet_15]
   \<and> analyze_all (env_answering (api_response 200 [tweet_15, tweet_5]) ''Score: 3/10'') 0 [tweet_15]
       = Inr [scored_as tweet_15 3]
   \<and> relevant_tweets [scored_as tweet_15 3] = []
   \<and> generate_digest [scored_as tweet_15 3] = ''No highly relevant tweets found in the latest batch.''
   \<and> posted (run_full_workflow (env_answering (api_response 200 [tweet_15, tweet_5]) ''Score: 3/10'') empty_world)
       = [discord_payload ''No highly relevant tweets found in the latest batch.'']
   \<and> analyze_tweets_main (env_answering (api_response 200 [tweet_15, tweet_5]) ''Score: 3/10'')
         (empty_world\<lparr>tweets_for_analysis_json := Some [tweet_15]\<rparr>)
       = (Inr (), empty_world\<lparr>tweets_for_analysis_json := Some [tweet_15],
                   twitter_digest_md := Some ''No highly relevant tweets found in the latest batch.'',
                   stdout := [''Analyzing 1 tweets for relevance...'',
                              ''Digest generated and saved to twitter_digest.md'']\<rparr>)
   \<and> load_tweets (empty_world\<lparr>tweets_for_analysis_json := Some [tweet_15]\<rparr>) = Inr [tweet_15]
   \<and> twitter_digest_md (snd (workflow_step_2 (env_offline (api_response 200 [tweet_15, tweet_5])) empty_world))
       = None
   \<and> fst (workflow_step_2 (env_offline (api_response 200 [tweet_15, tweet_5])) empty_world) = 1"
proof -
  have h1: "tweets_for_analysis_json
      (snd (workflow_step_1 (env_answering (api_response 200 [tweet_15, tweet_5]) ''Score: 3/10'') empty_world))
     = Some [tweet_15]"
    by code_simp
  have h2: "analyze_all (env_answering (api_response 200 [tweet_15, tweet_5]) ''Score: 3/10'') 0 [tweet_15]
       = Inr [scored_as tweet_15 3]"
    by code_simp
  have h3: "relevant_tweets [scored_as tweet_15 3] = []"
    by code_simp
  have h4: "twitter_digest_md (snd (workflow_step_2 (env_offline (api_response 200 [tweet_15, tweet_5])) empty_world))
       = None"
    by code_simp
  have h5: "analyze_tweets_main (env_answering (api_response 200 [tweet_15, tweet_5]) ''Score: 3/10'')
         (empty_world\<lparr>tweets_for_analysis_json := Some [tweet_15]\<rparr>)
       = (Inr (), empty_world\<lparr>tweets_for_analysis_json := Some [tweet_15],
                   twitter_digest_md := Some ''No highly relevant tweets found in the latest batch.'',
                   stdout := [''Analyzing 1 tweets for relevance...'',
                              ''Digest generated and saved to twitter_digest.md'']\<rparr>)"
    by code_simp
  have e: "posted empty_world = []"
    by (simp add: empty_world_def)
  from scoring_stage_always_writes_digest
         [of "env_answering (api_response 200 [tweet_15, tweet_5]) ''Score: 3/10''"
             "empty_world\<lparr>tweets_for_analysis_json := Some [tweet_15]\<rparr>"
             "empty_world\<lparr>tweets_for_analysis_json := Some [tweet_15],
                   twitter_digest_md := Some ''No highly relevant tweets found in the latest batch.'',
                   stdout := [''Analyzing 1 tweets for relevance...'',
                              ''Digest generated and saved to twitter_digest.md'']\<rparr>"
             "[scored_as tweet_15 3]" empty_world "[tweet_15]"]
    scoring_stage_always_writes_digest
         [of "env_answering (api_response 200 [tweet_15, tweet_5]) ''Score: 3/10''" empty_world
             empty_world "[scored_as tweet_15 3]" empty_world "[tweet_15]"]
    scoring_stage_always_writes_digest
         [of "env_offline (api_response 200 [tweet_15, tweet_5])" empty_world
             empty_world "[scored_as tweet_15 3]" empty_world "[tweet_15]"]
    h1 h2 h3 h4 h5 e
  show ?thesis
    by (auto simp: load_tweets_def)
qed

end
